theory Spec2Isabelle
  imports Complex_Main
begin

section \<open>JavaScript values\<close>

text \<open>
  The connector \<^verbatim>\<open>src/js/tokens.js\<close> works on parsed JSON payloads and builds plain
  objects. A value is one of JavaScript's primitives, an array or a plain object.
  An object is the list of its own enumerable properties in enumeration order.
  \<open>Fn\<close> stands for a built-in function or constructor, named by its global name:
  such values only arise when a property is read that the object inherits from its
  prototype. Strings are sequences of 8-bit code units.

  Numbers are kept abstract (the type parameter \<open>'n\<close>): JavaScript numbers are IEEE-754
  doubles, and every operation on them that the connector uses is a field of the
  \<open>host\<close> record below. Theorems stated for every host hold whatever the rounding of
  the arithmetic is.
\<close>

datatype 'n jsval =
    Undefined
  | Null
  | Bool bool
  | Num 'n
  | Str string
  | Arr "'n jsval list"
  | Obj "(string \<times> 'n jsval) list"
  | Fn string

text \<open>
  What the connector raises: a \<^verbatim>\<open>TypeError\<close> of the engine (a property read on
  \<^verbatim>\<open>undefined\<close> or \<^verbatim>\<open>null\<close>, a call of something that is no function), one of the
  error classes it imports from \<^verbatim>\<open>./base/errors\<close> with its message, a thrown value
  that is no error object, and the failed credentials check of the signing path.
\<close>

datatype error_class = ExchangeError | BadRequest | ArgumentsRequired | InvalidNonce | DDoSProtection

datatype 'n error =
    TypeError
  | Raised error_class "'n jsval"
  | ThrownValue "'n jsval"
  | CredentialsRequired

definition bindE :: "'e + 'a \<Rightarrow> ('a \<Rightarrow> 'e + 'b) \<Rightarrow> 'e + 'b" where
  "bindE m f = (case m of Inl e \<Rightarrow> Inl e | Inr v \<Rightarrow> f v)"

fun mapE :: "('a \<Rightarrow> 'e + 'b) \<Rightarrow> 'a list \<Rightarrow> 'e + 'b list" where
  "mapE f [] = Inr []"
| "mapE f (x # xs) = bindE (f x) (\<lambda>y. bindE (mapE f xs) (\<lambda>ys. Inr (y # ys)))"

section \<open>The host: the engine's number operations and the base class\<close>

text \<open>
  Everything the connector calls that is not defined in \<^verbatim>\<open>src/js/tokens.js\<close> and that
  the specification does not describe is a parameter of the model:
  \<^item> the engine's arithmetic on numbers, \<^verbatim>\<open>parseFloat\<close>, \<^verbatim>\<open>parseInt\<close>,
    \<^verbatim>\<open>Math.pow\<close>, \<^verbatim>\<open>Math.abs\<close>, the conversions between numbers and strings;
  \<^item> the helpers of \<^verbatim>\<open>./base/Exchange\<close>: \<^verbatim>\<open>iso8601\<close>, \<^verbatim>\<open>implodeParams\<close>,
    \<^verbatim>\<open>extractParams\<close>, \<^verbatim>\<open>omit\<close>, \<^verbatim>\<open>urlencode\<close>, \<^verbatim>\<open>hmac\<close>, and the clock
    \<^verbatim>\<open>milliseconds\<close> (its reading at the call).
\<close>

record 'n host =
  num_of_nat :: "nat \<Rightarrow> 'n"
  num_of_string :: "string \<Rightarrow> 'n"
  num_toString :: "'n \<Rightarrow> string"
  num_isFinite :: "'n \<Rightarrow> bool"
  num_neg :: "'n \<Rightarrow> 'n"
  num_sub :: "'n \<Rightarrow> 'n \<Rightarrow> 'n"
  num_mul :: "'n \<Rightarrow> 'n \<Rightarrow> 'n"
  num_lt :: "'n \<Rightarrow> 'n \<Rightarrow> bool"
  num_ge :: "'n \<Rightarrow> 'n \<Rightarrow> bool"
  num_eq :: "'n \<Rightarrow> 'n \<Rightarrow> bool"
  num_count :: "'n \<Rightarrow> nat"
  math_pow :: "'n \<Rightarrow> 'n \<Rightarrow> 'n"
  math_abs :: "'n \<Rightarrow> 'n"
  parseFloat :: "string \<Rightarrow> 'n"
  parseInt :: "string \<Rightarrow> 'n"
  iso8601 :: "'n jsval \<Rightarrow> 'n jsval"
  implodeParams :: "string \<Rightarrow> 'n jsval \<Rightarrow> string"
  extractParams :: "string \<Rightarrow> string list"
  omit :: "'n jsval \<Rightarrow> string list \<Rightarrow> 'n jsval"
  urlencode :: "'n jsval \<Rightarrow> string"
  hmac :: "string \<Rightarrow> string \<Rightarrow> string"
  milliseconds :: "'n"

text \<open>
  \<open>num_of_nat\<close> is the number a non-negative integer literal or an array length denotes,
  \<open>num_of_string\<close> the conversion \<^verbatim>\<open>ToNumber\<close> of a string (\<^verbatim>\<open>NaN\<close> included),
  \<open>num_count x\<close> the number of integers \<open>i = 0, 1, ...\<close> with \<^verbatim>\<open>i < x\<close>, that is how
  often \<^verbatim>\<open>for (i = 0; i < x; i++)\<close> runs its body.
\<close>

section \<open>Conversions and property access\<close>

fun join_with :: "string \<Rightarrow> string list \<Rightarrow> string" where
  "join_with sep [] = []"
| "join_with sep [x] = x"
| "join_with sep (x # y # ys) = x @ sep @ join_with sep (y # ys)"

text \<open>\<^verbatim>\<open>ToString\<close>, which also turns a value into a property key.\<close>

fun js_String :: "'n host \<Rightarrow> 'n jsval \<Rightarrow> string" where
  "js_String h Undefined = ''undefined''"
| "js_String h Null = ''null''"
| "js_String h (Bool b) = (if b then ''true'' else ''false'')"
| "js_String h (Num n) = num_toString h n"
| "js_String h (Str s) = s"
| "js_String h (Arr xs) =
     join_with '','' (map (\<lambda>x. if x = Undefined \<or> x = Null then [] else js_String h x) xs)"
| "js_String h (Obj kvs) = ''[object Object]''"
| "js_String h (Fn f) = ''function '' @ f @ ''() { [native code] }''"

text \<open>
  \<^verbatim>\<open>ToNumber\<close>: \<^verbatim>\<open>undefined\<close> gives \<^verbatim>\<open>NaN\<close>, which is also the number of the string
  \<^verbatim>\<open>"undefined"\<close>; an array or object is converted through its string form.
\<close>

fun to_number :: "'n host \<Rightarrow> 'n jsval \<Rightarrow> 'n" where
  "to_number h Undefined = num_of_string h ''undefined''"
| "to_number h Null = num_of_nat h 0"
| "to_number h (Bool b) = num_of_nat h (if b then 1 else 0)"
| "to_number h (Num n) = n"
| "to_number h v = num_of_string h (js_String h v)"

text \<open>
  The properties every plain object inherits from \<^verbatim>\<open>Object.prototype\<close>, and those an
  array inherits from \<^verbatim>\<open>Array.prototype\<close> (ECMAScript 2019 with Annex B). A property
  read and the \<^verbatim>\<open>in\<close> operator both consult them after the own properties.
\<close>

definition object_prototype :: "(string \<times> 'n jsval) list" where
  "object_prototype =
     [(''constructor'', Fn ''Object''),
      (''__defineGetter__'', Fn ''__defineGetter__''),
      (''__defineSetter__'', Fn ''__defineSetter__''),
      (''hasOwnProperty'', Fn ''hasOwnProperty''),
      (''__lookupGetter__'', Fn ''__lookupGetter__''),
      (''__lookupSetter__'', Fn ''__lookupSetter__''),
      (''isPrototypeOf'', Fn ''isPrototypeOf''),
      (''propertyIsEnumerable'', Fn ''propertyIsEnumerable''),
      (''toString'', Fn ''toString''),
      (''valueOf'', Fn ''valueOf''),
      (''__proto__'', Obj []),
      (''toLocaleString'', Fn ''toLocaleString'')]"

definition array_prototype :: "(string \<times> 'n jsval) list" where
  "array_prototype =
     map (\<lambda>f. (f, Fn f))
       [''concat'', ''copyWithin'', ''fill'', ''find'', ''findIndex'', ''lastIndexOf'',
        ''pop'', ''push'', ''reverse'', ''shift'', ''unshift'', ''slice'', ''sort'',
        ''splice'', ''includes'', ''indexOf'', ''join'', ''keys'', ''entries'', ''values'',
        ''forEach'', ''filter'', ''flat'', ''flatMap'', ''map'', ''every'', ''some'',
        ''reduce'', ''reduceRight'', ''toLocaleString'', ''toString'']
     @ (''constructor'', Fn ''Array'') # object_prototype"

text \<open>The canonical decimal form of an array index, and its inverse.\<close>

fun digits_value :: "string \<Rightarrow> nat \<Rightarrow> nat option" where
  "digits_value [] acc = Some acc"
| "digits_value (c # cs) acc =
     (if 48 \<le> (of_char c :: nat) \<and> (of_char c :: nat) \<le> 57
      then digits_value cs (10 * acc + ((of_char c :: nat) - 48)) else None)"

definition array_index :: "string \<Rightarrow> nat option" where
  "array_index k =
     (if k = [] \<or> (hd k = CHR ''0'' \<and> length k > 1) then None else digits_value k 0)"

text \<open>
  A property read \<^verbatim>\<open>o[k]\<close> on a value that is neither \<^verbatim>\<open>undefined\<close> nor \<^verbatim>\<open>null\<close>.
  Of a string the length and the characters are read; a number, a boolean or a
  function value has none of the properties the connector names.
\<close>

fun js_get :: "'n host \<Rightarrow> 'n jsval \<Rightarrow> string \<Rightarrow> 'n jsval" where
  "js_get h (Obj kvs) k =
     (case map_of kvs k of
        Some v \<Rightarrow> v
      | None \<Rightarrow> (case map_of object_prototype k of Some f \<Rightarrow> f | None \<Rightarrow> Undefined))"
| "js_get h (Arr xs) k =
     (if k = ''length'' then Num (num_of_nat h (length xs))
      else case array_index k of
        Some i \<Rightarrow> if i < length xs then xs ! i else Undefined
      | None \<Rightarrow> (case map_of array_prototype k of Some f \<Rightarrow> f | None \<Rightarrow> Undefined))"
| "js_get h (Str s) k =
     (if k = ''length'' then Num (num_of_nat h (length s))
      else case array_index k of
        Some i \<Rightarrow> if i < length s then Str [s ! i] else Undefined
      | None \<Rightarrow> Undefined)"
| "js_get h v k = Undefined"

text \<open>The same read where the receiver may be \<^verbatim>\<open>undefined\<close> or \<^verbatim>\<open>null\<close>.\<close>

definition get :: "'n host \<Rightarrow> 'n jsval \<Rightarrow> string \<Rightarrow> 'n error + 'n jsval" where
  "get h v k = (if v = Undefined \<or> v = Null then Inl TypeError else Inr (js_get h v k))"

text \<open>A chain of reads \<^verbatim>\<open>v[k1][k2]...\<close> on values that are not \<^verbatim>\<open>undefined\<close> or \<^verbatim>\<open>null\<close>.\<close>

fun js_path :: "'n host \<Rightarrow> 'n jsval \<Rightarrow> string list \<Rightarrow> 'n jsval" where
  "js_path h v [] = v"
| "js_path h v (k # ks) = js_path h (js_get h v k) ks"

text \<open>The operator \<^verbatim>\<open>k in o\<close> for a plain object \<open>o\<close>.\<close>

definition js_in :: "string \<Rightarrow> (string \<times> 'n jsval) list \<Rightarrow> bool" where
  "js_in k kvs = (map_of kvs k \<noteq> None \<or> map_of (object_prototype :: (string \<times> 'n jsval) list) k \<noteq> None)"

text \<open>
  The values \<^verbatim>\<open>Object.keys (o)\<close> leads to (\<^verbatim>\<open>o[keys[i]]\<close> for each key), which are
  also \<^verbatim>\<open>Object.values (o)\<close>.
\<close>

fun own_values :: "'n jsval \<Rightarrow> 'n error + 'n jsval list" where
  "own_values Undefined = Inl TypeError"
| "own_values Null = Inl TypeError"
| "own_values (Obj kvs) = Inr (map snd kvs)"
| "own_values (Arr xs) = Inr xs"
| "own_values (Str s) = Inr (map (\<lambda>c. Str [c]) s)"
| "own_values v = Inr []"

text \<open>Strict equality \<^verbatim>\<open>===\<close> of two values that are not both arrays or objects.\<close>

fun strict_eq :: "'n host \<Rightarrow> 'n jsval \<Rightarrow> 'n jsval \<Rightarrow> bool" where
  "strict_eq h (Num a) (Num b) = num_eq h a b"
| "strict_eq h a b = (a = b)"

text \<open>\<^verbatim>\<open>String.prototype.split\<close> with a separator of one character.\<close>

fun split :: "char \<Rightarrow> string \<Rightarrow> string list" where
  "split sep [] = [[]]"
| "split sep (c # cs) =
     (if c = sep then [] # split sep cs
      else (c # hd (split sep cs)) # tl (split sep cs))"

text \<open>\<^verbatim>\<open>toLowerCase\<close> and \<^verbatim>\<open>toUpperCase\<close>, on the ASCII letters.\<close>

definition lower_char :: "char \<Rightarrow> char" where
  "lower_char c =
     (case map_of (zip ''ABCDEFGHIJKLMNOPQRSTUVWXYZ'' ''abcdefghijklmnopqrstuvwxyz'') c of
        Some d \<Rightarrow> d
      | None \<Rightarrow> c)"

definition upper_char :: "char \<Rightarrow> char" where
  "upper_char c =
     (case map_of (zip ''abcdefghijklmnopqrstuvwxyz'' ''ABCDEFGHIJKLMNOPQRSTUVWXYZ'') c of
        Some d \<Rightarrow> d
      | None \<Rightarrow> c)"

definition toLowerCase :: "string \<Rightarrow> string" where
  "toLowerCase s = map lower_char s"

definition toUpperCase :: "string \<Rightarrow> string" where
  "toUpperCase s = map upper_char s"

section \<open>Helpers of the base class that the specification describes\<close>

text \<open>
  Modelled from the spec: the field read of \<^verbatim>\<open>safeFloat\<close> and \<^verbatim>\<open>safeString\<close>
  (\<^verbatim>\<open>./base/Exchange\<close>, not in the sources). Section 4.3 has fields extracted
  defensively, so the read never raises: a receiver that is no object or array has no
  fields.
\<close>

definition field :: "'n host \<Rightarrow> 'n jsval \<Rightarrow> string \<Rightarrow> 'n jsval" where
  "field h v k = (case v of Obj kvs \<Rightarrow> js_get h v k | Arr xs \<Rightarrow> js_get h v k | _ \<Rightarrow> Undefined)"

text \<open>
  Modelled from the spec: \<^verbatim>\<open>safeFloat\<close> of \<^verbatim>\<open>./base/Exchange\<close> is not in the sources.
  Section 4.3: an absent or non-numeric field yields \<^verbatim>\<open>undefined\<close> (the default of
  the call), never zero. A field is numeric when it holds a finite number, or a
  string that \<^verbatim>\<open>parseFloat\<close> reads as one; it yields that number.
\<close>

definition safeFloat :: "'n host \<Rightarrow> 'n jsval \<Rightarrow> string \<Rightarrow> 'n jsval \<Rightarrow> 'n jsval" where
  "safeFloat h v k dflt =
     (case field h v k of
        Num n \<Rightarrow> if num_isFinite h n then Num n else dflt
      | Str s \<Rightarrow> if num_isFinite h (parseFloat h s) then Num (parseFloat h s) else dflt
      | _ \<Rightarrow> dflt)"

text \<open>
  Modelled from the spec: \<^verbatim>\<open>safeString\<close> of \<^verbatim>\<open>./base/Exchange\<close> is not in the sources.
  It is the counterpart of the numeric extraction of section 4.3: the string form of
  the field, and the default when the field is absent (\<^verbatim>\<open>undefined\<close> or \<^verbatim>\<open>null\<close>).
\<close>

definition safeString :: "'n host \<Rightarrow> 'n jsval \<Rightarrow> string \<Rightarrow> 'n jsval \<Rightarrow> 'n jsval" where
  "safeString h v k dflt =
     (case field h v k of
        Undefined \<Rightarrow> dflt
      | Null \<Rightarrow> dflt
      | x \<Rightarrow> Str (js_String h x))"

text \<open>
  Modelled from the spec: \<^verbatim>\<open>safeString2\<close> of \<^verbatim>\<open>./base/Exchange\<close> is not in the
  sources. It is \<^verbatim>\<open>safeString\<close> on the first of two fields that is not absent.
\<close>

definition safeString2 :: "'n host \<Rightarrow> 'n jsval \<Rightarrow> string \<Rightarrow> string \<Rightarrow> 'n jsval \<Rightarrow> 'n jsval" where
  "safeString2 h v k1 k2 dflt =
     (case safeString h v k1 Undefined of
        Undefined \<Rightarrow> safeString h v k2 dflt
      | s \<Rightarrow> s)"

section \<open>Operators and loops\<close>

text \<open>Arithmetic operators and the global parsing functions applied to values.\<close>

definition js_mul :: "'n host \<Rightarrow> 'n jsval \<Rightarrow> 'n jsval \<Rightarrow> 'n jsval" where
  "js_mul h a b = Num (num_mul h (to_number h a) (to_number h b))"

definition js_sub :: "'n host \<Rightarrow> 'n jsval \<Rightarrow> 'n jsval \<Rightarrow> 'n jsval" where
  "js_sub h a b = Num (num_sub h (to_number h a) (to_number h b))"

definition js_neg :: "'n host \<Rightarrow> 'n jsval \<Rightarrow> 'n jsval" where
  "js_neg h a = Num (num_neg h (to_number h a))"

definition js_pow :: "'n host \<Rightarrow> 'n jsval \<Rightarrow> 'n jsval \<Rightarrow> 'n jsval" where
  "js_pow h a b = Num (math_pow h (to_number h a) (to_number h b))"

definition js_abs :: "'n host \<Rightarrow> 'n jsval \<Rightarrow> 'n jsval" where
  "js_abs h a = Num (math_abs h (to_number h a))"

definition js_parseFloat :: "'n host \<Rightarrow> 'n jsval \<Rightarrow> 'n jsval" where
  "js_parseFloat h a = Num (parseFloat h (js_String h a))"

definition js_parseInt :: "'n host \<Rightarrow> 'n jsval \<Rightarrow> 'n jsval" where
  "js_parseInt h a = Num (parseInt h (js_String h a))"

definition lit :: "'n host \<Rightarrow> nat \<Rightarrow> 'n jsval" where
  "lit h n = Num (num_of_nat h n)"


text \<open>
  The values \<^verbatim>\<open>a[0], a[1], ...\<close> that a loop
  \<^verbatim>\<open>for (let i = 0; i < a.length; i++)\<close> reads: the elements of an array, the
  characters of a string, and for any other value as many indexed reads as the
  host counts below its \<^verbatim>\<open>length\<close>.
\<close>

fun decimal :: "nat \<Rightarrow> string" where
  "decimal n =
     (if n < 10 then [''0123456789'' ! n] else decimal (n div 10) @ [''0123456789'' ! (n mod 10)])"

fun elements :: "'n host \<Rightarrow> 'n jsval \<Rightarrow> 'n error + 'n jsval list" where
  "elements h Undefined = Inl TypeError"
| "elements h Null = Inl TypeError"
| "elements h (Arr xs) = Inr xs"
| "elements h (Str s) = Inr (map (\<lambda>c. Str [c]) s)"
| "elements h v =
     Inr (map (\<lambda>i. js_get h v (decimal i))
            [0 ..< num_count h (to_number h (js_get h v ''length''))])"

section \<open>Order status\<close>

text \<open>
  \<^verbatim>\<open>parseOrderStatus (status)\<close>, lines 357-365:
  \<^verbatim>\<open>return (status in statuses) ? statuses[status] : status\<close>.
\<close>

definition statuses :: "(string \<times> 'n jsval) list" where
  "statuses =
     [(''open'', Str ''open''),
      (''filled'', Str ''closed''),
      (''canceled'', Str ''canceled''),
      (''expired'', Str ''canceled'')]"

definition parseOrderStatus :: "'n host \<Rightarrow> 'n jsval \<Rightarrow> 'n jsval" where
  "parseOrderStatus h status =
     (if js_in (js_String h status) (statuses :: (string \<times> 'n jsval) list)
      then js_get h (Obj statuses) (js_String h status)
      else status)"

section \<open>Market catalog\<close>

text \<open>
  The body of the loop of \<^verbatim>\<open>fetchMarkets\<close>, lines 174-214, for one raw pair record
  \<^verbatim>\<open>market = markets[keys[i]]\<close>. \<open>market_record\<close> is lines 177-214, once the title
  is split into \<open>base\<close> and \<open>quote\<close> and \<^verbatim>\<open>market['minAmount']\<close> is known to be a
  string: the identifiers, the precision, and the object pushed to the result.
\<close>

definition market_record ::
  "'n host \<Rightarrow> 'n jsval \<Rightarrow> 'n jsval \<Rightarrow> string \<Rightarrow> string \<Rightarrow> string \<Rightarrow> 'n jsval" where
  "market_record h market symbol base quote minAmount =
     (let baseId = toLowerCase base;
          quoteId = toLowerCase quote;
          symbolId = baseId @ ''_'' @ quoteId;
          id = baseId @ quoteId;
          precision = Obj
            [(''amount'', js_get h market ''priceDecimals''),
             (''price'', js_get h market ''amountDecimals'')];
          parts = split CHR '' '' minAmount;
          cost = hd parts;
          active = strict_eq h (js_get h market ''trading'') (Str ''Enabled'')
      in Obj
        [(''id'', Str id),
         (''symbol'', symbol),
         (''base'', Str base),
         (''quote'', Str quote),
         (''baseId'', Str baseId),
         (''quoteId'', Str quoteId),
         (''symbolId'', Str symbolId),
         (''info'', market),
         (''active'', Bool active),
         (''precision'', precision),
         (''limits'', Obj
            [(''amount'', Obj
                [(''min'', js_pow h (lit h 10) (js_neg h (js_get h precision ''amount''))),
                 (''max'', Undefined)]),
             (''price'', Obj
                [(''min'', js_pow h (lit h 10) (js_neg h (js_get h precision ''price''))),
                 (''max'', Undefined)]),
             (''cost'', Obj
                [(''min'', js_parseFloat h (Str cost)),
                 (''max'', Undefined)])])])"

text \<open>
  \<^verbatim>\<open>symbol.split\<close> and \<^verbatim>\<open>market['minAmount'].split\<close> raise a \<^verbatim>\<open>TypeError\<close> unless
  the receiver is a string; the destructuring \<^verbatim>\<open>[ base, quote ]\<close> leaves \<^verbatim>\<open>quote\<close>
  undefined when the title has no slash, and \<^verbatim>\<open>quote.toLowerCase ()\<close> raises then.
\<close>

definition market_of :: "'n host \<Rightarrow> 'n jsval \<Rightarrow> 'n error + 'n jsval" where
  "market_of h market =
     bindE (get h market ''title'') (\<lambda>symbol.
       case symbol of
         Str title \<Rightarrow>
           (case split CHR ''/'' title of
              base # quote # rest \<Rightarrow>
                (case js_get h market ''minAmount'' of
                   Str minAmount \<Rightarrow> Inr (market_record h market symbol base quote minAmount)
                 | _ \<Rightarrow> Inl TypeError)
            | _ \<Rightarrow> Inl TypeError)
       | _ \<Rightarrow> Inl TypeError)"

text \<open>
  \<^verbatim>\<open>fetchMarkets\<close>, lines 169-217, on the response \<open>markets\<close> of the awaited request
  \<^verbatim>\<open>publicGetPublicTradingPairsGetAll\<close>. A rejected promise is the error.
\<close>

definition fetchMarkets :: "'n host \<Rightarrow> 'n jsval \<Rightarrow> 'n error + 'n jsval" where
  "fetchMarkets h markets =
     bindE (own_values markets) (\<lambda>records.
     bindE (mapE (market_of h) records) (\<lambda>result. Inr (Arr result)))"

section \<open>Ticker\<close>

text \<open>
  \<^verbatim>\<open>fetchTicker\<close>, lines 231-265, on the response \<open>ticker\<close> of the awaited request.
\<close>

definition fetchTicker :: "'n host \<Rightarrow> 'n jsval \<Rightarrow> 'n jsval \<Rightarrow> 'n error + 'n jsval" where
  "fetchTicker h symbol ticker =
     bindE (get h ticker ''timestamp'') (\<lambda>ts.
       let timestamp = js_mul h (js_parseInt h ts) (lit h 1000);
           vwap = safeFloat h ticker ''vwap'' Undefined;
           baseVolume = safeFloat h ticker ''volume'' Undefined;
           quoteVolume =
             (if baseVolume \<noteq> Undefined \<and> vwap \<noteq> Undefined
              then js_mul h baseVolume vwap else Undefined);
           last = safeFloat h ticker ''last'' Undefined
       in Inr (Obj
         [(''symbol'', symbol),
          (''timestamp'', timestamp),
          (''datetime'', iso8601 h timestamp),
          (''high'', safeFloat h ticker ''high'' Undefined),
          (''low'', safeFloat h ticker ''low'' Undefined),
          (''bid'', safeFloat h ticker ''bid'' Undefined),
          (''bidVolume'', Undefined),
          (''ask'', safeFloat h ticker ''ask'' Undefined),
          (''askVolume'', Undefined),
          (''vwap'', vwap),
          (''open'', safeFloat h ticker ''open'' Undefined),
          (''close'', last),
          (''last'', last),
          (''previousClose'', Undefined),
          (''change'', Undefined),
          (''percentage'', Undefined),
          (''average'', Undefined),
          (''baseVolume'', baseVolume),
          (''quoteVolume'', quoteVolume),
          (''info'', ticker)]))"

section \<open>Trades\<close>

text \<open>
  \<^verbatim>\<open>parseTrade (trade, market = undefined)\<close>, lines 318-355. The reads
  \<^verbatim>\<open>trade['datetime']\<close> and \<^verbatim>\<open>market['symbolId']\<close> are direct: they raise on
  \<^verbatim>\<open>undefined\<close> or \<^verbatim>\<open>null\<close> (the guard \<^verbatim>\<open>market !== undefined\<close> lets \<^verbatim>\<open>null\<close>
  through).
\<close>

definition parseTrade :: "'n host \<Rightarrow> 'n jsval \<Rightarrow> 'n jsval \<Rightarrow> 'n error + 'n jsval" where
  "parseTrade h trade market =
     (let side = safeString h trade ''type'' Undefined;
          symbol = Undefined;
          price = safeFloat h trade ''price'' Undefined;
          amount = safeFloat h trade ''amount'' Undefined;
          id = safeString2 h trade ''tid'' ''id'' Undefined
      in bindE (get h trade ''datetime'') (\<lambda>dt.
         let timestamp = js_mul h (js_parseInt h dt) (lit h 1000);
             cost = safeFloat h trade ''cost'' Undefined
         in bindE
              (if market \<noteq> Undefined then
                 bindE (get h market ''symbolId'') (\<lambda>symbolId.
                 bindE (get h market ''baseId'') (\<lambda>baseId.
                 bindE (get h market ''quoteId'') (\<lambda>quoteId.
                 bindE (get h market ''symbol'') (\<lambda>msymbol.
                   Inr (safeFloat h trade (js_String h symbolId) price,
                        safeFloat h trade (js_String h baseId) amount,
                        safeFloat h trade (js_String h quoteId) cost,
                        msymbol)))))
               else Inr (price, amount, cost, symbol))
              (\<lambda>(price, amount, cost, symbol).
                 let cost = (if cost = Undefined \<and> price \<noteq> Undefined \<and> amount \<noteq> Undefined
                             then js_mul h price amount else cost);
                     cost = (if cost \<noteq> Undefined then js_abs h cost else cost)
                 in Inr (Obj
                   [(''amount'', amount),
                    (''id'', id),
                    (''info'', trade),
                    (''order'', Undefined),
                    (''price'', price),
                    (''timestamp'', timestamp),
                    (''datetime'', iso8601 h timestamp),
                    (''type'', Undefined),
                    (''side'', side),
                    (''symbol'', symbol),
                    (''cost'', cost)]))))"








section \<open>Orders\<close>

text \<open>
  \<^verbatim>\<open>parseOrder (order, market = undefined)\<close>, lines 367-413, with the catalog's index
  \<^verbatim>\<open>this.markets_by_id\<close> as \<open>markets_by_id\<close>. The function is \<^verbatim>\<open>async\<close>: the error is
  the rejection of its promise. Line 368 overwrites the parameter \<open>market\<close> with
  \<open>resolved_market\<close>. \<open>order_record\<close> is what lines 369-382, 387-390 and 395-412
  compute from an order that is not \<^verbatim>\<open>undefined\<close> or \<^verbatim>\<open>null\<close>, none of which
  raises; \<open>parseOrder\<close> has the reads that can raise, in the order of the source.
\<close>

definition resolved_market :: "'n host \<Rightarrow> 'n jsval \<Rightarrow> 'n jsval \<Rightarrow> 'n jsval" where
  "resolved_market h markets_by_id order =
     js_get h markets_by_id (js_String h (js_get h order ''currencyPair''))"

definition order_record ::
  "'n host \<Rightarrow> 'n jsval \<Rightarrow> 'n jsval \<Rightarrow> 'n jsval \<Rightarrow> 'n jsval list \<Rightarrow> 'n jsval" where
  "order_record h order symbol feeCurrency trades =
     (let status = parseOrderStatus h (safeString h order ''orderStatus'' Undefined);
          id = safeString h order ''id'' Undefined;
          side = safeString h order ''type'' Undefined;
          timestamp = Str (js_String h (js_mul h (js_get h order ''created'') (lit h 1000)));
          amount = safeFloat h order ''amount'' Undefined;
          price = safeFloat h order ''price'' Undefined;
          remaining = safeFloat h order ''remainingAmount'' Undefined;
          filled = js_sub h amount remaining;
          cost = js_mul h price filled;
          fee = Obj [(''cost'', Undefined), (''currency'', feeCurrency)]
      in Obj
        [(''id'', id),
         (''datetime'', iso8601 h timestamp),
         (''timestamp'', timestamp),
         (''lastTradeTimestamp'', Undefined),
         (''status'', status),
         (''symbol'', symbol),
         (''type'', Str ''limit''),
         (''side'', side),
         (''price'', price),
         (''cost'', cost),
         (''amount'', amount),
         (''filled'', filled),
         (''remaining'', remaining),
         (''trades'', Arr trades),
         (''fee'', fee),
         (''info'', order)])"

definition parseOrder ::
  "'n host \<Rightarrow> 'n jsval \<Rightarrow> 'n jsval \<Rightarrow> 'n jsval \<Rightarrow> 'n error + 'n jsval" where
  "parseOrder h markets_by_id order market =
     bindE (get h order ''currencyPair'') (\<lambda>currencyPair.
     bindE (get h markets_by_id (js_String h currencyPair)) (\<lambda>market.
     bindE
       (if market \<noteq> Undefined then
          bindE (get h market ''symbol'') (\<lambda>symbol.
          bindE (get h market ''quote'') (\<lambda>feeCurrency. Inr (symbol, feeCurrency)))
        else Inr (Undefined, Undefined))
       (\<lambda>(symbol, feeCurrency).
          bindE (elements h (js_get h order ''trades'')) (\<lambda>raw.
          bindE (mapE (\<lambda>trade. parseTrade h trade market) raw) (\<lambda>trades.
            Inr (order_record h order symbol feeCurrency trades))))))"

section \<open>Signing\<close>

text \<open>
  Modelled from the spec: \<^verbatim>\<open>checkRequiredCredentials\<close> of \<^verbatim>\<open>./base/Exchange\<close> is not
  in the sources. Sections 4.1 and 7: signing fails with \<^verbatim>\<open>CredentialsRequired\<close>,
  locally and before any private call, when a credential is absent; the connector
  requires \<^verbatim>\<open>apiKey\<close> and \<^verbatim>\<open>secret\<close> (lines 61-64). A credential is a string or
  \<^verbatim>\<open>undefined\<close> (\<open>None\<close>); it is absent when it is \<^verbatim>\<open>undefined\<close> or empty.
\<close>

definition checkRequiredCredentials :: "string option \<Rightarrow> string option \<Rightarrow> 'n error + unit" where
  "checkRequiredCredentials apiKey secret =
     (if apiKey = None \<or> apiKey = Some [] \<or> secret = None \<or> secret = Some []
      then Inl CredentialsRequired else Inr ())"

text \<open>
  Modelled from the spec: \<^verbatim>\<open>encode\<close> of \<^verbatim>\<open>./base/Exchange\<close> is not in the sources.
  Section 4.1 has the signature be the upper-cased HMAC of the secret and \<^verbatim>\<open>auth\<close>,
  so \<^verbatim>\<open>encode\<close> leaves a string as it is.
\<close>

definition encode :: "string \<Rightarrow> string" where
  "encode s = s"

text \<open>The string a credential contributes to a concatenation.\<close>

definition credential :: "string option \<Rightarrow> string" where
  "credential c = (case c of Some s \<Rightarrow> s | None \<Rightarrow> ''undefined'')"

definition urls_api :: string where
  "urls_api = ''https://api.tokens.net/''"

text \<open>
  \<^verbatim>\<open>sign (path, api, method, params, headers, body)\<close>, lines 146-167, with
  \<^verbatim>\<open>this.apiKey\<close> and \<^verbatim>\<open>this.secret\<close> as the first arguments. The nonce is the
  clock's reading (\<^verbatim>\<open>nonce ()\<close>, lines 267-269).
\<close>

definition sign ::
  "'n host \<Rightarrow> string option \<Rightarrow> string option \<Rightarrow> string \<Rightarrow> string \<Rightarrow> 'n jsval \<Rightarrow> 'n jsval \<Rightarrow>
   'n jsval \<Rightarrow> 'n jsval \<Rightarrow> 'n error + 'n jsval" where
  "sign h apiKey secret path api meth params headers body =
     (let url = urls_api @ implodeParams h path params;
          query = omit h params (extractParams h path)
      in if api = ''public'' then
           bindE (own_values query) (\<lambda>keys.
             let url = (if keys \<noteq> [] then url @ ''?'' @ urlencode h query else url)
             in Inr (Obj
               [(''url'', Str url), (''method'', meth), (''body'', body),
                (''headers'', headers)]))
         else
           bindE (checkRequiredCredentials apiKey secret) (\<lambda>_.
             let nonce = num_toString h (milliseconds h);
                 auth = nonce @ credential apiKey;
                 signature = encode (hmac h (encode auth) (encode (credential secret)));
                 body = Str (urlencode h query);
                 headers = Obj
                   [(''key'', Str (credential apiKey)),
                    (''signature'', Str (toUpperCase signature)),
                    (''nonce'', Str nonce),
                    (''Content-Type'', Str ''application/x-www-form-urlencoded'')]
             in Inr (Obj
               [(''url'', Str url), (''method'', meth), (''body'', body),
                (''headers'', headers)])))"

section \<open>Error classification\<close>

text \<open>The table \<^verbatim>\<open>'exceptions'\<close> of \<^verbatim>\<open>describe ()\<close>, lines 129-142.\<close>

definition exceptions :: "(string \<times> error_class) list" where
  "exceptions =
     [(''100'', ArgumentsRequired),
      (''101'', ArgumentsRequired),
      (''102'', ArgumentsRequired),
      (''110'', InvalidNonce),
      (''111'', InvalidNonce),
      (''120'', BadRequest),
      (''121'', BadRequest),
      (''130'', BadRequest),
      (''140'', BadRequest),
      (''150'', BadRequest),
      (''160'', BadRequest),
      (''429'', DDoSProtection)]"

text \<open>
  \<^verbatim>\<open>throw new exceptions[error] (response.reason)\<close>, line 485, once
  \<^verbatim>\<open>error in exceptions\<close> holds. A key of the table constructs its error class. An
  inherited key finds a property of \<^verbatim>\<open>Object.prototype\<close>: \<^verbatim>\<open>constructor\<close> is
  \<^verbatim>\<open>Object\<close>, and \<^verbatim>\<open>new Object (reason)\<close> is thrown (the reason, boxed when it is a
  primitive, or an empty object for \<^verbatim>\<open>undefined\<close> and \<^verbatim>\<open>null\<close>): \<open>ThrownValue\<close>
  carries it. Any other inherited property is no constructor.
\<close>

definition throw_new :: "string \<Rightarrow> 'n jsval \<Rightarrow> 'n error" where
  "throw_new key reason =
     (case map_of exceptions key of
        Some cls \<Rightarrow> Raised cls reason
      | None \<Rightarrow>
          if key = ''constructor''
          then ThrownValue (if reason = Undefined \<or> reason = Null then Obj [] else reason)
          else TypeError)"

definition in_exceptions :: "string \<Rightarrow> bool" where
  "in_exceptions key =
     (map_of exceptions key \<noteq> None \<or>
      map_of (object_prototype :: (string \<times> unit jsval) list) key \<noteq> None)"

text \<open>
  \<^verbatim>\<open>handleErrors (httpCode, reason, url, method, headers, body, response)\<close>, lines
  476-492. Only \<open>body\<close> and \<open>response\<close> are read.
\<close>

definition handleErrors :: "'n host \<Rightarrow> 'n jsval \<Rightarrow> 'n jsval \<Rightarrow> 'n error + unit" where
  "handleErrors h body response =
     (case body of
        Str b \<Rightarrow>
          if length b < 2 then Inr ()
          else if hd b = CHR ''{'' \<or> hd b = CHR ''['' then
            (let error = safeString h response ''errorCode'' Undefined in
             if in_exceptions (js_String h error) then
               bindE (get h response ''reason'') (\<lambda>reason. Inl (throw_new (js_String h error) reason))
             else
               (let status = safeString h response ''status'' Undefined in
                if status = Str ''error'' then
                  bindE (get h response ''reason'') (\<lambda>reason. Inl (Raised ExchangeError reason))
                else Inr ()))
          else Inr ()
      | _ \<Rightarrow> Inr ())"

section \<open>A host with exact decimal arithmetic\<close>

text \<open>
  To run the model on concrete payloads: a number is a rational, or \<open>None\<close> for
  \<^verbatim>\<open>NaN\<close>; the arithmetic is exact, so it computes what the engine computes wherever
  IEEE-754 arithmetic is exact. The parsers read a sign, digits and a fraction.
  \<^verbatim>\<open>Math.pow\<close> is given for integer exponents. The helpers of the base class are
  stand-ins: \<^verbatim>\<open>hmac\<close>, \<^verbatim>\<open>iso8601\<close> and \<^verbatim>\<open>urlencode\<close> spell out their arguments,
  the path has no placeholders, the clock reads 1546300800000.
\<close>

definition is_digit :: "char \<Rightarrow> bool" where
  "is_digit c = (48 \<le> (of_char c :: nat) \<and> (of_char c :: nat) \<le> 57)"

definition digits_nat :: "string \<Rightarrow> nat" where
  "digits_nat s = foldl (\<lambda>a c. 10 * a + ((of_char c :: nat) - 48)) 0 s"

definition strip_sign :: "string \<Rightarrow> bool \<times> string" where
  "strip_sign s =
     (case s of
        [] \<Rightarrow> (False, s)
      | c # r \<Rightarrow> if c = CHR ''-'' then (True, r) else if c = CHR ''+'' then (False, r) else (False, s))"

definition strip_fraction :: "string \<Rightarrow> string \<times> string" where
  "strip_fraction s =
     (case s of
        [] \<Rightarrow> ([], s)
      | c # r \<Rightarrow> if c = CHR ''.'' then (takeWhile is_digit r, dropWhile is_digit r) else ([], s))"

definition dec_prefix :: "string \<Rightarrow> (rat \<times> string) option" where
  "dec_prefix s =
     (let (negative, s1) = strip_sign s;
          ip = takeWhile is_digit s1;
          (fp, rest) = strip_fraction (dropWhile is_digit s1);
          v = of_nat (digits_nat ip) + of_nat (digits_nat fp) / 10 ^ length fp
      in if ip = [] \<and> fp = [] then None else Some (if negative then - v else v, rest))"

definition dec_parseFloat :: "string \<Rightarrow> rat option" where
  "dec_parseFloat s = map_option fst (dec_prefix (dropWhile (\<lambda>c. c = CHR '' '') s))"

definition dec_parseInt :: "string \<Rightarrow> rat option" where
  "dec_parseInt s =
     (let (negative, s1) = strip_sign (dropWhile (\<lambda>c. c = CHR '' '') s);
          ip = takeWhile is_digit s1
      in if ip = [] then None
         else Some (if negative then - of_nat (digits_nat ip) else of_nat (digits_nat ip)))"

definition dec_of_string :: "string \<Rightarrow> rat option" where
  "dec_of_string s =
     (if s = [] then Some 0
      else case dec_prefix s of Some (v, []) \<Rightarrow> Some v | _ \<Rightarrow> None)"

fun fraction_digits :: "nat \<Rightarrow> rat \<Rightarrow> string" where
  "fraction_digits n r =
     (if n = 0 \<or> r = 0 then []
      else (''0123456789'' ! nat \<lfloor>10 * r\<rfloor>) #
           fraction_digits (n - 1) (10 * r - of_int \<lfloor>10 * r\<rfloor>))"

definition dec_toString :: "rat option \<Rightarrow> string" where
  "dec_toString x =
     (case x of
        None \<Rightarrow> ''NaN''
      | Some r \<Rightarrow>
          (let a = \<bar>r\<bar>; ip = nat \<lfloor>a\<rfloor>; fp = a - of_nat ip
           in (if r < 0 then ''-'' else []) @ decimal ip @
              (if fp = 0 then [] else ''.'' @ fraction_digits 20 fp)))"

definition dec_pow :: "rat option \<Rightarrow> rat option \<Rightarrow> rat option" where
  "dec_pow b e =
     (case (b, e) of
        (Some x, Some y) \<Rightarrow>
          if y = of_int \<lfloor>y\<rfloor> \<and> (x \<noteq> 0 \<or> 0 \<le> y)
          then Some (if 0 \<le> y then x ^ nat \<lfloor>y\<rfloor> else 1 / x ^ nat \<lfloor>- y\<rfloor>)
          else None
      | _ \<Rightarrow> None)"

definition dec_op :: "(rat \<Rightarrow> rat \<Rightarrow> rat) \<Rightarrow> rat option \<Rightarrow> rat option \<Rightarrow> rat option" where
  "dec_op f a b = (case (a, b) of (Some x, Some y) \<Rightarrow> Some (f x y) | _ \<Rightarrow> None)"

definition dec_rel :: "(rat \<Rightarrow> rat \<Rightarrow> bool) \<Rightarrow> rat option \<Rightarrow> rat option \<Rightarrow> bool" where
  "dec_rel f a b = (case (a, b) of (Some x, Some y) \<Rightarrow> f x y | _ \<Rightarrow> False)"

definition dec_count :: "rat option \<Rightarrow> nat" where
  "dec_count x = (case x of Some r \<Rightarrow> nat \<lceil>r\<rceil> | None \<Rightarrow> 0)"

definition dec_urlencode :: "rat option jsval \<Rightarrow> string" where
  "dec_urlencode q =
     (case q of
        Obj kvs \<Rightarrow>
          join_with ''&''
            (map (\<lambda>(k, v). k @ ''='' @ (case v of Str s \<Rightarrow> s | Num n \<Rightarrow> dec_toString n | _ \<Rightarrow> [])) kvs)
      | _ \<Rightarrow> [])"

definition dec_iso8601 :: "rat option jsval \<Rightarrow> rat option jsval" where
  "dec_iso8601 t =
     Str (''iso8601('' @ (case t of Num n \<Rightarrow> dec_toString n | Str s \<Rightarrow> s | _ \<Rightarrow> []) @ '')'')"

definition dec_host :: "rat option host" where
  "dec_host =
     \<lparr> num_of_nat = (\<lambda>n. Some (of_nat n)),
       num_of_string = dec_of_string,
       num_toString = dec_toString,
       num_isFinite = (\<lambda>x. x \<noteq> None),
       num_neg = map_option uminus,
       num_sub = dec_op (-),
       num_mul = dec_op (*),
       num_lt = dec_rel (<),
       num_ge = dec_rel (\<ge>),
       num_eq = dec_rel (=),
       num_count = dec_count,
       math_pow = dec_pow,
       math_abs = map_option abs,
       parseFloat = dec_parseFloat,
       parseInt = dec_parseInt,
       iso8601 = dec_iso8601,
       implodeParams = (\<lambda>path params. path),
       extractParams = (\<lambda>path. []),
       omit = (\<lambda>params keys. params),
       urlencode = dec_urlencode,
       hmac = (\<lambda>msg key. ''hmac('' @ key @ '','' @ msg @ '')''),
       milliseconds = Some 1546300800000 \<rparr>"

section \<open>Sample payloads\<close>

text \<open>
  The pair record of the specification's catalog scenario,
  \<^verbatim>\<open>{title:"DPP/ETH", priceDecimals:4, amountDecimals:8, minAmount:"0.001 ETH",
  trading:"Enabled"}\<close>, and a response holding it.
\<close>

definition dpp_eth_record :: "'n host \<Rightarrow> 'n jsval" where
  "dpp_eth_record h = Obj
     [(''title'', Str ''DPP/ETH''),
      (''priceDecimals'', lit h 4),
      (''amountDecimals'', lit h 8),
      (''minAmount'', Str ''0.001 ETH''),
      (''trading'', Str ''Enabled'')]"

definition dpp_eth_markets :: "'n host \<Rightarrow> 'n jsval" where
  "dpp_eth_markets h = Obj [(''dppeth'', dpp_eth_record h)]"

text \<open>
  The tickers of the specification's scenario: \<^verbatim>\<open>volume\<close> 10 with \<^verbatim>\<open>vwap\<close> 2, and
  the same without \<^verbatim>\<open>vwap\<close>.
\<close>

definition sample_ticker :: "'n host \<Rightarrow> 'n jsval" where
  "sample_ticker h = Obj
     [(''timestamp'', Str ''1546300800''), (''volume'', lit h 10), (''vwap'', lit h 2)]"

definition sample_ticker_no_vwap :: "'n host \<Rightarrow> 'n jsval" where
  "sample_ticker_no_vwap h = Obj [(''timestamp'', Str ''1546300800''), (''volume'', lit h 10)]"

text \<open>
  Response bodies and their parsed responses: the classifier receives both. The
  code 131 is \<^verbatim>\<open>Invalid order id\<close> in the comment on lines 463-475.
\<close>

definition body_131 :: string where
  "body_131 = ''{\"status\":\"error\",\"errorCode\":\"131\",\"reason\":\"Invalid order id\"}''"

definition response_131 :: "'n jsval" where
  "response_131 = Obj
     [(''status'', Str ''error''), (''errorCode'', Str ''131''),
      (''reason'', Str ''Invalid order id'')]"

text \<open>
  The catalog's index by id over the market of \<open>dpp_eth_record\<close>, and an order of that
  pair: 10 ordered at 0.5, 4 remaining, no trades yet.
\<close>

definition sample_markets_by_id :: "'n host \<Rightarrow> 'n jsval" where
  "sample_markets_by_id h = Obj
     [(''dppeth'',
       market_record h (dpp_eth_record h) (Str ''DPP/ETH'') ''DPP'' ''ETH'' ''0.001 ETH'')]"

definition sample_order :: "'n host \<Rightarrow> string \<Rightarrow> 'n jsval" where
  "sample_order h pair = Obj
     [(''id'', lit h 42),
      (''currencyPair'', Str pair),
      (''type'', Str ''buy''),
      (''price'', Str ''0.5''),
      (''amount'', Str ''10''),
      (''remainingAmount'', Str ''4''),
      (''created'', lit h 1546300800),
      (''orderStatus'', Str ''open''),
      (''trades'', Arr [])]"




section \<open>Properties of the helpers\<close>

lemma dec_host_simps:
  "num_of_nat dec_host = (\<lambda>n. Some (of_nat n))"
  "num_of_string dec_host = dec_of_string"
  "num_toString dec_host = dec_toString"
  "num_isFinite dec_host = (\<lambda>x. x \<noteq> None)"
  "num_neg dec_host = map_option uminus"
  "num_sub dec_host = dec_op (-)"
  "num_mul dec_host = dec_op (*)"
  "num_lt dec_host = dec_rel (<)"
  "num_ge dec_host = dec_rel (\<ge>)"
  "num_eq dec_host = dec_rel (=)"
  "num_count dec_host = dec_count"
  "math_pow dec_host = dec_pow"
  "math_abs dec_host = map_option abs"
  "parseFloat dec_host = dec_parseFloat"
  "parseInt dec_host = dec_parseInt"
  "iso8601 dec_host = dec_iso8601"
  "implodeParams dec_host = (\<lambda>path params. path)"
  "extractParams dec_host = (\<lambda>path. [])"
  "omit dec_host = (\<lambda>params keys. params)"
  "urlencode dec_host = dec_urlencode"
  "hmac dec_host = (\<lambda>msg key. ''hmac('' @ key @ '','' @ msg @ '')'')"
  "milliseconds dec_host = Some 1546300800000"
  by (simp_all add: dec_host_def)


lemma bindE_Inr: "bindE m f = Inr y \<longleftrightarrow> (\<exists>x. m = Inr x \<and> f x = Inr y)"
  by (cases m) (auto simp: bindE_def)

lemma mapE_nth:
  "mapE f xs = Inr ys \<Longrightarrow> length ys = length xs \<and> (\<forall>i<length xs. f (xs ! i) = Inr (ys ! i))"
proof (induction xs arbitrary: ys)
  case Nil
  then show ?case by simp
next
  case (Cons x xs)
  from Cons.prems obtain y zs where y: "f x = Inr y" and zs: "mapE f xs = Inr zs"
    and ys: "ys = y # zs"
    by (auto simp: bindE_Inr)
  from Cons.IH [OF zs] have "length zs = length xs"
    and "\<forall>i<length xs. f (xs ! i) = Inr (zs ! i)" by auto
  with y ys show ?case by (auto simp: nth_Cons split: nat.splits)
qed



section \<open>Properties of the market catalog\<close>

lemma market_of_Inr:
  "market_of h m = Inr r \<longleftrightarrow>
     (\<exists>title base quote rest minAmount.
        js_get h m ''title'' = Str title \<and> split CHR ''/'' title = base # quote # rest \<and>
        js_get h m ''minAmount'' = Str minAmount \<and>
        r = market_record h m (Str title) base quote minAmount)"
  by (cases m)
     (auto simp: market_of_def get_def bindE_def split: if_splits jsval.splits list.splits)

lemma fetchMarkets_nth:
  assumes "own_values markets = Inr records"
    and "fetchMarkets h markets = Inr (Arr result)"
    and "i < length records"
  shows "market_of h (records ! i) = Inr (result ! i)"
  using assms mapE_nth [of "market_of h" records result]
  by (auto simp: fetchMarkets_def bindE_Inr)

lemma dpp_eth_market:
  "fetchMarkets h (dpp_eth_markets h) =
     Inr (Arr [market_record h (dpp_eth_record h) (Str ''DPP/ETH'') ''DPP'' ''ETH'' ''0.001 ETH''])"
proof -
  have "market_of h (dpp_eth_record h) =
      Inr (market_record h (dpp_eth_record h) (Str ''DPP/ETH'') ''DPP'' ''ETH'' ''0.001 ETH'')"
    unfolding market_of_Inr by (simp add: dpp_eth_record_def)
  then show ?thesis
    by (simp add: fetchMarkets_def dpp_eth_markets_def bindE_def)
qed






text \<open>
  C6. For every raw pair record, the market that \<^verbatim>\<open>fetchMarkets\<close> builds from it has
  \<^verbatim>\<open>precision.amount\<close> equal to the record's \<^verbatim>\<open>priceDecimals\<close> and
  \<^verbatim>\<open>precision.price\<close> equal to its \<^verbatim>\<open>amountDecimals\<close>: the two decimal counts are
  swapped relative to their names (lines 181-184).
\<close>

theorem fetchMarkets_precision_swapped:
  "own_values markets = Inr records \<and> fetchMarkets h markets = Inr (Arr result) \<and>
   i < length records \<longrightarrow>
     js_path h (result ! i) [''precision'', ''amount''] = js_get h (records ! i) ''priceDecimals'' \<and>
     js_path h (result ! i) [''precision'', ''price''] = js_get h (records ! i) ''amountDecimals''"
proof
  assume a: "own_values markets = Inr records \<and> fetchMarkets h markets = Inr (Arr result) \<and>
   i < length records"
  then have "market_of h (records ! i) = Inr (result ! i)"
    using fetchMarkets_nth by blast
  then obtain title base quote minAmount where
    "result ! i = market_record h (records ! i) (Str title) base quote minAmount"
    unfolding market_of_Inr by auto
  then show "js_path h (result ! i) [''precision'', ''amount''] = js_get h (records ! i) ''priceDecimals'' \<and>
     js_path h (result ! i) [''precision'', ''price''] = js_get h (records ! i) ''amountDecimals''"
    by (simp add: market_record_def Let_def)
qed

theorem fetchMarkets_precision_swapped_witness:
  "own_values (dpp_eth_markets dec_host) = Inr [dpp_eth_record dec_host] \<and>
   js_get dec_host (dpp_eth_record dec_host) ''priceDecimals'' = Num (Some 4) \<and>
   js_get dec_host (dpp_eth_record dec_host) ''amountDecimals'' = Num (Some 8) \<and>
   (\<exists>r. fetchMarkets dec_host (dpp_eth_markets dec_host) = Inr (Arr [r]) \<and>
        js_path dec_host r [''precision'', ''amount''] = Num (Some 4) \<and>
        js_path dec_host r [''precision'', ''price''] = Num (Some 8))"
proof -
  let ?rec = "dpp_eth_record dec_host :: rat option jsval"
  let ?r = "market_record dec_host ?rec (Str ''DPP/ETH'') ''DPP'' ''ETH'' ''0.001 ETH''"
  have hyp: "own_values (dpp_eth_markets dec_host) = Inr [?rec] \<and>
      fetchMarkets dec_host (dpp_eth_markets dec_host) = Inr (Arr [?r]) \<and> 0 < length [?rec]"
    by (simp add: dpp_eth_market) (simp add: dpp_eth_markets_def)
  have rec: "js_get dec_host ?rec ''priceDecimals'' = Num (Some 4) \<and>
      js_get dec_host ?rec ''amountDecimals'' = Num (Some 8)"
    by (simp add: dpp_eth_record_def lit_def dec_host_simps)
  from fetchMarkets_precision_swapped [where markets = "dpp_eth_markets dec_host"
      and records = "[?rec]" and h = dec_host and result = "[?r]" and i = 0] hyp rec
  have "js_path dec_host ?r [''precision'', ''amount''] = Num (Some 4) \<and>
        js_path dec_host ?r [''precision'', ''price''] = Num (Some 8)"
    by simp
  with hyp rec show ?thesis by simp
qed





section \<open>Properties of the ticker\<close>

lemma fetchTicker_Inr:
  assumes "ticker \<noteq> Undefined" and "ticker \<noteq> Null"
  shows "\<exists>t. fetchTicker h symbol ticker = Inr t \<and>
           js_get h t ''baseVolume'' = safeFloat h ticker ''volume'' Undefined \<and>
           js_get h t ''vwap'' = safeFloat h ticker ''vwap'' Undefined \<and>
           js_get h t ''quoteVolume'' =
             (if safeFloat h ticker ''volume'' Undefined \<noteq> Undefined \<and>
                 safeFloat h ticker ''vwap'' Undefined \<noteq> Undefined
              then js_mul h (safeFloat h ticker ''volume'' Undefined)
                     (safeFloat h ticker ''vwap'' Undefined)
              else Undefined)"
  using assms by (simp add: fetchTicker_def get_def bindE_def Let_def)

lemma safeFloat_absent:
  "map_of kvs k = None \<Longrightarrow> map_of (object_prototype :: (string \<times> 'n jsval) list) k = None \<Longrightarrow>
   safeFloat h (Obj kvs :: 'n jsval) k dflt = dflt"
  by (simp add: safeFloat_def field_def)

text \<open>
  C9. For every raw ticker payload (any value but \<^verbatim>\<open>undefined\<close> and \<^verbatim>\<open>null\<close>, on
  which line 236 raises), the normalized ticker has \<^verbatim>\<open>quoteVolume = baseVolume * vwap\<close>
  when \<^verbatim>\<open>safeFloat\<close> reads a number from both \<^verbatim>\<open>volume\<close> and \<^verbatim>\<open>vwap\<close>, and
  \<^verbatim>\<open>quoteVolume = undefined\<close> when it reads none from either, in particular when
  either field is absent: no zero is substituted.
\<close>

theorem fetchTicker_quoteVolume:
  "ticker \<noteq> Undefined \<and> ticker \<noteq> Null \<longrightarrow>
     (\<exists>t. fetchTicker h symbol ticker = Inr t \<and>
        (\<forall>a b. safeFloat h ticker ''volume'' Undefined = Num a \<and>
               safeFloat h ticker ''vwap'' Undefined = Num b \<longrightarrow>
               js_get h t ''baseVolume'' = Num a \<and> js_get h t ''vwap'' = Num b \<and>
               js_get h t ''quoteVolume'' = Num (num_mul h a b)) \<and>
        (safeFloat h ticker ''volume'' Undefined = Undefined \<or>
         safeFloat h ticker ''vwap'' Undefined = Undefined \<longrightarrow>
           js_get h t ''quoteVolume'' = Undefined) \<and>
        (\<forall>kvs. ticker = Obj kvs \<and> (map_of kvs ''vwap'' = None \<or> map_of kvs ''volume'' = None) \<longrightarrow>
           js_get h t ''quoteVolume'' = Undefined))"
proof
  assume a: "ticker \<noteq> Undefined \<and> ticker \<noteq> Null"
  then obtain t where t: "fetchTicker h symbol ticker = Inr t"
    and bv: "js_get h t ''baseVolume'' = safeFloat h ticker ''volume'' Undefined"
    and vw: "js_get h t ''vwap'' = safeFloat h ticker ''vwap'' Undefined"
    and qv: "js_get h t ''quoteVolume'' =
             (if safeFloat h ticker ''volume'' Undefined \<noteq> Undefined \<and>
                 safeFloat h ticker ''vwap'' Undefined \<noteq> Undefined
              then js_mul h (safeFloat h ticker ''volume'' Undefined)
                     (safeFloat h ticker ''vwap'' Undefined)
              else Undefined)"
    using fetchTicker_Inr [of ticker h symbol] by blast
  have absent: "js_get h t ''quoteVolume'' = Undefined"
    if "ticker = Obj kvs" and "map_of kvs ''vwap'' = None \<or> map_of kvs ''volume'' = None" for kvs
    using that qv by (auto simp: safeFloat_absent object_prototype_def)
  show "\<exists>t. fetchTicker h symbol ticker = Inr t \<and>
        (\<forall>a b. safeFloat h ticker ''volume'' Undefined = Num a \<and>
               safeFloat h ticker ''vwap'' Undefined = Num b \<longrightarrow>
               js_get h t ''baseVolume'' = Num a \<and> js_get h t ''vwap'' = Num b \<and>
               js_get h t ''quoteVolume'' = Num (num_mul h a b)) \<and>
        (safeFloat h ticker ''volume'' Undefined = Undefined \<or>
         safeFloat h ticker ''vwap'' Undefined = Undefined \<longrightarrow>
           js_get h t ''quoteVolume'' = Undefined) \<and>
        (\<forall>kvs. ticker = Obj kvs \<and> (map_of kvs ''vwap'' = None \<or> map_of kvs ''volume'' = None) \<longrightarrow>
           js_get h t ''quoteVolume'' = Undefined)"
    using t bv vw qv absent by (intro exI [of _ t]) (auto simp: js_mul_def)
qed

lemma safeFloat_Num:
  "js_get h (Obj kvs) k = Num n \<Longrightarrow> num_isFinite h n \<Longrightarrow> safeFloat h (Obj kvs) k dflt = Num n"
  by (simp add: safeFloat_def field_def)

theorem fetchTicker_quoteVolume_witness:
  "sample_ticker dec_host \<noteq> Undefined \<and> sample_ticker dec_host \<noteq> Null \<and>
   safeFloat dec_host (sample_ticker dec_host) ''volume'' Undefined = Num (Some 10) \<and>
   safeFloat dec_host (sample_ticker dec_host) ''vwap'' Undefined = Num (Some 2) \<and>
   (\<exists>t. fetchTicker dec_host (Str ''DPP/ETH'') (sample_ticker dec_host) = Inr t \<and>
        js_get dec_host t ''quoteVolume'' = Num (Some 20)) \<and>
   (\<exists>t. fetchTicker dec_host (Str ''DPP/ETH'') (sample_ticker_no_vwap dec_host) = Inr t \<and>
        js_get dec_host t ''quoteVolume'' = Undefined)"
proof -
  let ?k = "sample_ticker dec_host :: rat option jsval"
  let ?n = "sample_ticker_no_vwap dec_host :: rat option jsval"
  have ne: "?k \<noteq> Undefined \<and> ?k \<noteq> Null" "?n \<noteq> Undefined \<and> ?n \<noteq> Null"
    by (simp_all add: sample_ticker_def sample_ticker_no_vwap_def)
  have sf: "safeFloat dec_host ?k ''volume'' Undefined = Num (Some 10)"
    "safeFloat dec_host ?k ''vwap'' Undefined = Num (Some 2)"
    by (simp_all add: sample_ticker_def safeFloat_Num lit_def dec_host_simps)
  from fetchTicker_quoteVolume [of ?k dec_host "Str ''DPP/ETH''"] ne(1) sf
  have one: "\<exists>t. fetchTicker dec_host (Str ''DPP/ETH'') ?k = Inr t \<and>
        js_get dec_host t ''quoteVolume'' = Num (Some 20)"
    by (auto simp: dec_host_simps dec_op_def)
  from fetchTicker_quoteVolume [of ?n dec_host "Str ''DPP/ETH''"] ne(2)
  have two: "\<exists>t. fetchTicker dec_host (Str ''DPP/ETH'') ?n = Inr t \<and>
        js_get dec_host t ''quoteVolume'' = Undefined"
    by (auto simp: sample_ticker_no_vwap_def)
  from ne sf one two show ?thesis by simp
qed

section \<open>Properties of the order status\<close>

lemma parseOrderStatus_own:
  "map_of (object_prototype :: (string \<times> 'n jsval) list) s = None \<Longrightarrow>
   parseOrderStatus h (Str s :: 'n jsval) =
     (case map_of statuses s of Some v \<Rightarrow> v | None \<Rightarrow> Str s)"
  by (auto simp: parseOrderStatus_def js_in_def split: option.splits)

lemma parseOrderStatus_examples:
  "parseOrderStatus h (Str ''open'') = Str ''open''"
  "parseOrderStatus h (Str ''filled'') = Str ''closed''"
  "parseOrderStatus h (Str ''canceled'') = Str ''canceled''"
  "parseOrderStatus h (Str ''expired'') = Str ''canceled''"
  "parseOrderStatus h (Str ''weird_unknown_status'') = Str ''weird_unknown_status''"
  by (simp_all add: parseOrderStatus_def js_in_def statuses_def object_prototype_def)

text \<open>
  C4. The claim has \<^verbatim>\<open>parseOrderStatus\<close> return every status outside its table
  unchanged. Line 364 tests \<^verbatim>\<open>status in statuses\<close>, which also holds for the names
  an object literal inherits from \<^verbatim>\<open>Object.prototype\<close>: for the status string
  \<^verbatim>\<open>"constructor"\<close> the function returns \<^verbatim>\<open>statuses["constructor"]\<close>, the built-in
  \<^verbatim>\<open>Object\<close>, and not the string.
\<close>

theorem parseOrderStatus_inherited_name:
  "parseOrderStatus h (Str ''constructor'') = Fn ''Object'' \<and>
   parseOrderStatus h (Str ''constructor'') \<noteq> Str ''constructor''"
  by (simp add: parseOrderStatus_def js_in_def statuses_def object_prototype_def)

section \<open>Properties of the error classifier\<close>

lemma safeString_nullish:
  "safeString h v k Undefined \<noteq> Undefined \<Longrightarrow> v \<noteq> Undefined \<and> v \<noteq> Null"
  by (auto simp: safeString_def field_def)

lemma not_in_exceptions_undefined: "\<not> in_exceptions ''undefined''"
  by (simp add: in_exceptions_def exceptions_def object_prototype_def)

lemma handleErrors_cases:
  "handleErrors h body response =
     (if (\<exists>b. body = Str b \<and> 2 \<le> length b \<and> (hd b = CHR ''{'' \<or> hd b = CHR ''[''))
      then
        if in_exceptions (js_String h (safeString h response ''errorCode'' Undefined))
        then Inl (throw_new (js_String h (safeString h response ''errorCode'' Undefined))
                    (js_get h response ''reason''))
        else if safeString h response ''status'' Undefined = Str ''error''
        then Inl (Raised ExchangeError (js_get h response ''reason''))
        else Inr ()
      else Inr ())"
proof (cases body)
  case (Str b)
  have e: "get h response ''reason'' = Inr (js_get h response ''reason'')"
    if "in_exceptions (js_String h (safeString h response ''errorCode'' Undefined))"
    using that safeString_nullish [of h response "''errorCode''"] not_in_exceptions_undefined
    by (cases "safeString h response ''errorCode'' Undefined = Undefined") (auto simp: get_def)
  have s: "get h response ''reason'' = Inr (js_get h response ''reason'')"
    if "safeString h response ''status'' Undefined = Str ''error''"
    using that safeString_nullish [of h response "''status''"] by (auto simp: get_def)
  show ?thesis
    using e s by (auto simp: handleErrors_def Str bindE_def Let_def)
qed (simp_all add: handleErrors_def)

lemma handleErrors_examples:
  "handleErrors h (Str ''{\"errorCode\":\"110\",\"reason\":\"bad nonce\"}'')
     (Obj [(''errorCode'', Str ''110''), (''reason'', Str ''bad nonce'')]) =
   Inl (Raised InvalidNonce (Str ''bad nonce''))"
  "handleErrors h (Str ''{\"status\":\"error\",\"reason\":\"x\"}'')
     (Obj [(''status'', Str ''error''), (''reason'', Str ''x'')]) =
   Inl (Raised ExchangeError (Str ''x''))"
  "handleErrors h (Str ''{\"status\":\"ok\"}'') (Obj [(''status'', Str ''ok'')]) = Inr ()"
  "handleErrors h (Str ''<html>'') response = Inr ()"
  "handleErrors h (Str ''{'') response = Inr ()"
  by (simp_all add: handleErrors_cases safeString_def field_def in_exceptions_def
        throw_new_def exceptions_def object_prototype_def)

text \<open>
  C2. The claim has the codes of a bad request (120 to 160: an invalid pair, order
  id, parameter or currency) raise \<^verbatim>\<open>BadRequest\<close>. The table on lines 129-142 has
  no entry for 131: on the exchange's answer to an invalid order id the classifier
  falls through to the test of \<^verbatim>\<open>status\<close> and raises the generic
  \<^verbatim>\<open>ExchangeError\<close>. The claim also has the classifier raise nothing on a response
  without a code of the table and without the status \<^verbatim>\<open>error\<close>. Line 484 tests
  \<^verbatim>\<open>error in exceptions\<close>, which holds for the names the table inherits from
  \<^verbatim>\<open>Object.prototype\<close>: on the body \<^verbatim>\<open>{"errorCode":"constructor"}\<close> line 485 throws
  \<^verbatim>\<open>new Object (undefined)\<close>, an empty object.
\<close>

theorem handleErrors_code_131:
  "handleErrors h (Str body_131) response_131 = Inl (Raised ExchangeError (Str ''Invalid order id'')) \<and>
   map_of exceptions ''131'' = None \<and> map_of exceptions ''130'' = Some BadRequest \<and>
   handleErrors h (Str ''{\"errorCode\":\"constructor\"}'') (Obj [(''errorCode'', Str ''constructor'')]) =
     Inl (ThrownValue (Obj []))"
  by (simp add: handleErrors_def body_131_def response_131_def safeString_def field_def
        in_exceptions_def exceptions_def object_prototype_def get_def bindE_def throw_new_def)

section \<open>Properties of the order normalizer\<close>

lemma parseTrade_Inr:
  assumes "trade \<noteq> Undefined" and "trade \<noteq> Null" and "market \<noteq> Null"
  shows "\<exists>t. parseTrade h trade market = Inr t"
  using assms by (simp add: parseTrade_def get_def bindE_def Let_def)

lemma mapE_Inr: "(\<forall>x\<in>set xs. \<exists>y. f x = Inr y) \<Longrightarrow> \<exists>ys. mapE f xs = Inr ys"
proof (induction xs)
  case Nil
  show ?case by simp
next
  case (Cons x xs)
  then obtain y ys where "f x = Inr y" and "mapE f xs = Inr ys"
    by (meson list.set_intros)
  then show ?case by (simp add: bindE_def)
qed

lemma bindE_Inr_eq [simp]: "bindE (Inr x) f = f x"
  by (simp add: bindE_def)

lemma parseTrade_all_Inr:
  assumes "market \<noteq> Null" and "\<forall>t\<in>set ts. t \<noteq> Undefined \<and> t \<noteq> Null"
  shows "\<exists>trades. mapE (\<lambda>t. parseTrade h t market) ts = Inr trades"
proof (rule mapE_Inr, rule ballI)
  fix t assume "t \<in> set ts"
  with assms show "\<exists>y. parseTrade h t market = Inr y"
    by (intro parseTrade_Inr) auto
qed

lemma parseOrder_Inr:
  assumes "order \<noteq> Undefined" and "order \<noteq> Null"
    and "markets_by_id \<noteq> Undefined" and "markets_by_id \<noteq> Null"
    and "resolved_market h markets_by_id order \<noteq> Null"
    and "js_get h order ''trades'' = Arr ts"
    and "\<forall>t\<in>set ts. t \<noteq> Undefined \<and> t \<noteq> Null"
  shows "\<exists>trades. parseOrder h markets_by_id order market =
           Inr (order_record h order
                  (js_get h (resolved_market h markets_by_id order) ''symbol'')
                  (js_get h (resolved_market h markets_by_id order) ''quote'') trades)"
proof -
  let ?m = "resolved_market h markets_by_id order"
  from parseTrade_all_Inr [OF assms(5,7)]
  obtain trades where tr: "mapE (\<lambda>t. parseTrade h t ?m) ts = Inr trades" ..
  have g1: "get h order ''currencyPair'' = Inr (js_get h order ''currencyPair'')"
    using assms(1,2) by (simp add: get_def)
  have g2: "get h markets_by_id (js_String h (js_get h order ''currencyPair'')) = Inr ?m"
    using assms(3,4) by (simp add: get_def resolved_market_def)
  have g3: "(if ?m \<noteq> Undefined then
          bindE (get h ?m ''symbol'') (\<lambda>symbol.
          bindE (get h ?m ''quote'') (\<lambda>feeCurrency. Inr (symbol, feeCurrency)))
        else Inr (Undefined, Undefined)) = Inr (js_get h ?m ''symbol'', js_get h ?m ''quote'')"
    using assms(5) by (cases "?m = Undefined") (simp_all add: get_def)
  have g4: "elements h (js_get h order ''trades'') = Inr ts"
    by (simp add: assms(6))
  have "parseOrder h markets_by_id order market =
      Inr (order_record h order (js_get h ?m ''symbol'') (js_get h ?m ''quote'') trades)"
    by (simp only: parseOrder_def g1 g2 g3 g4 tr bindE_Inr_eq prod.case)
  then show ?thesis by blast
qed

lemma order_record_fields:
  fixes h :: "'n host" and order symbol feeCurrency :: "'n jsval" and trades :: "'n jsval list"
  defines "r \<equiv> order_record h order symbol feeCurrency trades"
  shows "js_get h r ''amount'' = safeFloat h order ''amount'' Undefined"
    and "js_get h r ''remaining'' = safeFloat h order ''remainingAmount'' Undefined"
    and "js_get h r ''price'' = safeFloat h order ''price'' Undefined"
    and "js_get h r ''filled'' =
           js_sub h (safeFloat h order ''amount'' Undefined)
             (safeFloat h order ''remainingAmount'' Undefined)"
    and "js_get h r ''cost'' =
           js_mul h (safeFloat h order ''price'' Undefined)
             (js_sub h (safeFloat h order ''amount'' Undefined)
                (safeFloat h order ''remainingAmount'' Undefined))"
    and "js_get h r ''symbol'' = symbol"
    and "js_get h r ''fee'' = Obj [(''cost'', Undefined), (''currency'', feeCurrency)]"
    and "js_get h r ''trades'' = Arr trades"
  by (simp_all add: r_def order_record_def Let_def)







lemma sample_order_resolved:
  "resolved_market h (sample_markets_by_id h) (sample_order h ''dppeth'') =
     market_record h (dpp_eth_record h) (Str ''DPP/ETH'') ''DPP'' ''ETH'' ''0.001 ETH''"
  "resolved_market h (sample_markets_by_id h) (sample_order h ''xyzeth'') = Undefined"
  by (simp_all add: resolved_market_def sample_markets_by_id_def sample_order_def
        object_prototype_def)


text \<open>
  C10. \<^verbatim>\<open>parseOrder\<close> resolves the market by looking the order's \<^verbatim>\<open>currencyPair\<close> up
  in \<^verbatim>\<open>this.markets_by_id\<close> (line 368): the \<open>market\<close> argument has no effect on the
  result, error or not. The returned order's \<^verbatim>\<open>fee\<close> has \<^verbatim>\<open>cost\<close> unset and
  \<^verbatim>\<open>currency\<close> the resolved market's \<^verbatim>\<open>quote\<close>, which is \<^verbatim>\<open>undefined\<close> when the
  lookup resolves no market.
\<close>

theorem parseOrder_market_and_fee:
  "parseOrder h markets_by_id order market = parseOrder h markets_by_id order market' \<and>
   (order \<noteq> Undefined \<and> order \<noteq> Null \<and> markets_by_id \<noteq> Undefined \<and> markets_by_id \<noteq> Null \<and>
    resolved_market h markets_by_id order \<noteq> Null \<and>
    js_get h order ''trades'' = Arr ts \<and> (\<forall>t\<in>set ts. t \<noteq> Undefined \<and> t \<noteq> Null) \<longrightarrow>
      (\<exists>r. parseOrder h markets_by_id order market = Inr r \<and>
           js_get h r ''fee'' = Obj
             [(''cost'', Undefined),
              (''currency'',
               if resolved_market h markets_by_id order = Undefined then Undefined
               else js_get h (resolved_market h markets_by_id order) ''quote'')]))"
proof (intro conjI impI)
  show "parseOrder h markets_by_id order market = parseOrder h markets_by_id order market'"
    by (simp add: parseOrder_def)
next
  assume a: "order \<noteq> Undefined \<and> order \<noteq> Null \<and> markets_by_id \<noteq> Undefined \<and> markets_by_id \<noteq> Null \<and>
    resolved_market h markets_by_id order \<noteq> Null \<and>
    js_get h order ''trades'' = Arr ts \<and> (\<forall>t\<in>set ts. t \<noteq> Undefined \<and> t \<noteq> Null)"
  then obtain trades where "parseOrder h markets_by_id order market =
      Inr (order_record h order
             (js_get h (resolved_market h markets_by_id order) ''symbol'')
             (js_get h (resolved_market h markets_by_id order) ''quote'') trades)"
    using parseOrder_Inr [of order markets_by_id h ts market] by blast
  then show "\<exists>r. parseOrder h markets_by_id order market = Inr r \<and>
           js_get h r ''fee'' = Obj
             [(''cost'', Undefined),
              (''currency'',
               if resolved_market h markets_by_id order = Undefined then Undefined
               else js_get h (resolved_market h markets_by_id order) ''quote'')]"
    by (simp add: order_record_fields)
qed

theorem parseOrder_market_and_fee_witness:
  "resolved_market dec_host (sample_markets_by_id dec_host) (sample_order dec_host ''dppeth'') \<noteq> Null \<and>
   js_get dec_host (sample_order dec_host ''dppeth'') ''trades'' = Arr [] \<and>
   parseOrder dec_host (sample_markets_by_id dec_host) (sample_order dec_host ''dppeth'') Undefined =
   parseOrder dec_host (sample_markets_by_id dec_host) (sample_order dec_host ''dppeth'') Null \<and>
   (\<exists>r. parseOrder dec_host (sample_markets_by_id dec_host) (sample_order dec_host ''dppeth'')
          Null = Inr r \<and>
        js_get dec_host r ''fee'' = Obj [(''cost'', Undefined), (''currency'', Str ''ETH'')]) \<and>
   (\<exists>r. parseOrder dec_host (sample_markets_by_id dec_host) (sample_order dec_host ''xyzeth'')
          Null = Inr r \<and>
        js_get dec_host r ''fee'' = Obj [(''cost'', Undefined), (''currency'', Undefined)])"
proof -
  let ?o = "sample_order dec_host ''dppeth'' :: rat option jsval"
  let ?x = "sample_order dec_host ''xyzeth'' :: rat option jsval"
  let ?ms = "sample_markets_by_id dec_host :: rat option jsval"
  have hyp: "?o \<noteq> Undefined \<and> ?o \<noteq> Null \<and> ?ms \<noteq> Undefined \<and> ?ms \<noteq> Null \<and>
      resolved_market dec_host ?ms ?o \<noteq> Null \<and>
      js_get dec_host ?o ''trades'' = Arr [] \<and> (\<forall>t\<in>set []. t \<noteq> Undefined \<and> t \<noteq> (Null :: rat option jsval))"
    by (simp add: sample_order_resolved market_record_def Let_def)
       (simp add: sample_order_def sample_markets_by_id_def)
  have hypx: "?x \<noteq> Undefined \<and> ?x \<noteq> Null \<and> ?ms \<noteq> Undefined \<and> ?ms \<noteq> Null \<and>
      resolved_market dec_host ?ms ?x \<noteq> Null \<and>
      js_get dec_host ?x ''trades'' = Arr [] \<and> (\<forall>t\<in>set []. t \<noteq> Undefined \<and> t \<noteq> (Null :: rat option jsval))"
    by (simp add: sample_order_resolved)
       (simp add: sample_order_def sample_markets_by_id_def)
  note thm1 = parseOrder_market_and_fee [where h = dec_host and markets_by_id = ?ms
      and order = ?o and market = Null and market' = Undefined and ts = "[]"]
  note thm2 = parseOrder_market_and_fee [where h = dec_host and markets_by_id = ?ms
      and order = ?x and market = Null and market' = Undefined and ts = "[]"]
  from thm1 [THEN conjunct2] hyp have one: "\<exists>r. parseOrder dec_host ?ms ?o Null = Inr r \<and>
        js_get dec_host r ''fee'' = Obj [(''cost'', Undefined), (''currency'', Str ''ETH'')]"
    by (simp add: sample_order_resolved market_record_def Let_def)
  from thm2 [THEN conjunct2] hypx have two: "\<exists>r. parseOrder dec_host ?ms ?x Null = Inr r \<and>
        js_get dec_host r ''fee'' = Obj [(''cost'', Undefined), (''currency'', Undefined)]"
    by (simp add: sample_order_resolved)
  from thm1 [THEN conjunct1]
  have "parseOrder dec_host ?ms ?o Undefined = parseOrder dec_host ?ms ?o Null"
    by (rule sym)
  with hyp one two show ?thesis by blast
qed

section \<open>Properties of the signing\<close>

text \<open>
  C5. For a request that is not public, \<^verbatim>\<open>sign\<close> first checks the credentials: it
  fails with \<^verbatim>\<open>CredentialsRequired\<close>, itself and so before any network call, when
  \<^verbatim>\<open>apiKey\<close> or \<^verbatim>\<open>secret\<close> is absent. With both present and the nonce \<open>n\<close> (the
  clock's reading as a string) it returns the headers \<^verbatim>\<open>key = apiKey\<close>,
  \<^verbatim>\<open>signature = uppercase (HMAC (secret, n + apiKey))\<close>, \<^verbatim>\<open>nonce = n\<close> and
  \<^verbatim>\<open>Content-Type = application/x-www-form-urlencoded\<close>, and the urlencoded query as
  the body. A public request keeps the headers and the body it was given.
\<close>

theorem sign_private_headers:
  "(api \<noteq> ''public'' \<longrightarrow>
      (apiKey = None \<or> apiKey = Some [] \<or> secret = None \<or> secret = Some [] \<longrightarrow>
         sign h apiKey secret path api meth params headers body = Inl CredentialsRequired) \<and>
      (\<forall>k s. apiKey = Some k \<and> k \<noteq> [] \<and> secret = Some s \<and> s \<noteq> [] \<longrightarrow>
         sign h apiKey secret path api meth params headers body = Inr (Obj
           [(''url'', Str (urls_api @ implodeParams h path params)),
            (''method'', meth),
            (''body'', Str (urlencode h (omit h params (extractParams h path)))),
            (''headers'', Obj
               [(''key'', Str k),
                (''signature'',
                 Str (toUpperCase (hmac h (num_toString h (milliseconds h) @ k) s))),
                (''nonce'', Str (num_toString h (milliseconds h))),
                (''Content-Type'', Str ''application/x-www-form-urlencoded'')])]))) \<and>
   (api = ''public'' \<and> omit h params (extractParams h path) \<noteq> Undefined \<and>
    omit h params (extractParams h path) \<noteq> Null \<longrightarrow>
      (\<exists>r. sign h apiKey secret path api meth params headers body = Inr r \<and>
           js_get h r ''headers'' = headers \<and> js_get h r ''body'' = body \<and>
           js_get h r ''method'' = meth))"
proof (intro conjI impI allI)
  assume "api \<noteq> ''public''"
    and "apiKey = None \<or> apiKey = Some [] \<or> secret = None \<or> secret = Some []"
  then show "sign h apiKey secret path api meth params headers body = Inl CredentialsRequired"
    by (auto simp: sign_def Let_def checkRequiredCredentials_def bindE_def)
next
  fix k s
  assume "api \<noteq> ''public''"
    and "apiKey = Some k \<and> k \<noteq> [] \<and> secret = Some s \<and> s \<noteq> []"
  then show "sign h apiKey secret path api meth params headers body = Inr (Obj
           [(''url'', Str (urls_api @ implodeParams h path params)),
            (''method'', meth),
            (''body'', Str (urlencode h (omit h params (extractParams h path)))),
            (''headers'', Obj
               [(''key'', Str k),
                (''signature'',
                 Str (toUpperCase (hmac h (num_toString h (milliseconds h) @ k) s))),
                (''nonce'', Str (num_toString h (milliseconds h))),
                (''Content-Type'', Str ''application/x-www-form-urlencoded'')])])"
    by (simp add: sign_def Let_def checkRequiredCredentials_def bindE_def credential_def
          encode_def)
next
  assume a: "api = ''public'' \<and> omit h params (extractParams h path) \<noteq> Undefined \<and>
    omit h params (extractParams h path) \<noteq> Null"
  then obtain keys where "own_values (omit h params (extractParams h path)) = Inr keys"
    by (cases "omit h params (extractParams h path)") auto
  with a show "\<exists>r. sign h apiKey secret path api meth params headers body = Inr r \<and>
           js_get h r ''headers'' = headers \<and> js_get h r ''body'' = body \<and>
           js_get h r ''method'' = meth"
    by (simp add: sign_def Let_def bindE_def)
qed

lemma upper_hmac: "toUpperCase ''hmac(sec,1546300800000KEY)'' = ''HMAC(SEC,1546300800000KEY)''"
  by (simp add: toUpperCase_def upper_char_def)

lemma dec_nonce: "num_toString dec_host (milliseconds dec_host) = ''1546300800000''"
  by (simp add: dec_host_simps dec_toString_def)

theorem sign_private_headers_witness:
  "''private'' \<noteq> ''public'' \<and>
   sign dec_host (Some ''KEY'') None ''private/orders/get/all/'' ''private'' (Str ''GET'')
     (Obj []) Undefined Undefined = Inl CredentialsRequired \<and>
   sign dec_host (Some ''KEY'') (Some ''sec'') ''private/orders/get/all/'' ''private'' (Str ''GET'')
     (Obj []) Undefined Undefined = Inr (Obj
       [(''url'', Str ''https://api.tokens.net/private/orders/get/all/''),
        (''method'', Str ''GET''),
        (''body'', Str []),
        (''headers'', Obj
           [(''key'', Str ''KEY''),
            (''signature'', Str ''HMAC(SEC,1546300800000KEY)''),
            (''nonce'', Str ''1546300800000''),
            (''Content-Type'', Str ''application/x-www-form-urlencoded'')])]) \<and>
   (\<exists>r. sign dec_host (Some ''KEY'') (Some ''sec'') ''public/trading-pairs/get/all/'' ''public''
          (Str ''GET'') (Obj []) Undefined Undefined = Inr r \<and>
        js_get dec_host r ''headers'' = Undefined \<and> js_get dec_host r ''body'' = Undefined)"
proof -
  note priv = sign_private_headers [where api = "''private''" and h = dec_host
      and path = "''private/orders/get/all/''" and meth = "Str ''GET''" and params = "Obj []"
      and headers = Undefined and body = Undefined, THEN conjunct1, rule_format]
  have ne: "''private'' \<noteq> ''public''" by simp
  have one: "sign dec_host (Some ''KEY'') None ''private/orders/get/all/'' ''private'' (Str ''GET'')
     (Obj []) Undefined Undefined = Inl CredentialsRequired"
    using priv [OF ne, THEN conjunct1, of "Some ''KEY''" None] by simp
  have "sign dec_host (Some ''KEY'') (Some ''sec'') ''private/orders/get/all/'' ''private'' (Str ''GET'')
     (Obj []) Undefined Undefined = Inr (Obj
       [(''url'', Str (urls_api @ implodeParams dec_host ''private/orders/get/all/'' (Obj []))),
        (''method'', Str ''GET''),
        (''body'', Str (urlencode dec_host
           (omit dec_host (Obj []) (extractParams dec_host ''private/orders/get/all/'')))),
        (''headers'', Obj
           [(''key'', Str ''KEY''),
            (''signature'',
             Str (toUpperCase
                (hmac dec_host (num_toString dec_host (milliseconds dec_host) @ ''KEY'') ''sec''))),
            (''nonce'', Str (num_toString dec_host (milliseconds dec_host))),
            (''Content-Type'', Str ''application/x-www-form-urlencoded'')])])"
    using priv [OF ne, THEN conjunct2, rule_format, of "Some ''KEY''" "''KEY''" "Some ''sec''" "''sec''"]
    by simp
  then have two: "sign dec_host (Some ''KEY'') (Some ''sec'') ''private/orders/get/all/'' ''private''
     (Str ''GET'') (Obj []) Undefined Undefined = Inr (Obj
       [(''url'', Str ''https://api.tokens.net/private/orders/get/all/''),
        (''method'', Str ''GET''),
        (''body'', Str []),
        (''headers'', Obj
           [(''key'', Str ''KEY''),
            (''signature'', Str ''HMAC(SEC,1546300800000KEY)''),
            (''nonce'', Str ''1546300800000''),
            (''Content-Type'', Str ''application/x-www-form-urlencoded'')])])"
    unfolding dec_nonce
    by (simp add: dec_host_simps urls_api_def dec_urlencode_def upper_hmac)
  have three: "\<exists>r. sign dec_host (Some ''KEY'') (Some ''sec'') ''public/trading-pairs/get/all/'' ''public''
          (Str ''GET'') (Obj []) Undefined Undefined = Inr r \<and>
        js_get dec_host r ''headers'' = Undefined \<and> js_get dec_host r ''body'' = Undefined"
    using sign_private_headers [where api = "''public''" and h = dec_host
      and path = "''public/trading-pairs/get/all/''" and meth = "Str ''GET''" and params = "Obj []"
      and headers = Undefined and body = Undefined and apiKey = "Some ''KEY''"
      and secret = "Some ''sec''", THEN conjunct2]
    by (auto simp: dec_host_simps)
  from ne one two three show ?thesis by blast
qed

section \<open>Properties of the trade list\<close>























end
